theory Spec2Isabelle
  imports Main
begin

section \<open>Python floats\<close>

text \<open>
  The amount of a contribution is a Python float: \<open>validate_amount\<close> returns
  \<open>float(amount_str)\<close> and the tests pass \<open>100.0\<close>. A float is an IEEE 754 double:
  \<open>Finite s m e\<close> is the number \<open>m * 2 ^ e\<close>, negative when \<open>s\<close> holds, with
  \<open>m < 2 ^ 53\<close> and \<open>-1074 \<le> e \<le> 971\<close>, normalised (\<open>2 ^ 52 \<le> m\<close> unless
  \<open>e = -1074\<close>; zero is \<open>Finite s 0 0\<close>, with its sign). \<open>make_double s n e\<close> rounds
  \<open>n * 2 ^ e\<close> to the nearest double, ties to even, and to infinity from \<open>2 ^ 1024\<close>
  on. \<open>dbl m e\<close> is the double of \<open>m * 2 ^ e\<close>: \<open>dbl 100 0\<close> is \<open>100.0\<close>.
\<close>

datatype double = Finite bool nat int | Infinity bool | NaN

fun bit_length :: "nat \<Rightarrow> nat" where
  "bit_length n = (if n = 0 then 0 else Suc (bit_length (n div 2)))"

declare bit_length.simps [simp del]

definition round_shift :: "nat \<Rightarrow> nat \<Rightarrow> nat" where
  "round_shift n k =
     (let q = n div 2 ^ k; r = n mod 2 ^ k
      in if 2 ^ k < 2 * r \<or> (2 * r = 2 ^ k \<and> q mod 2 = 1) then q + 1 else q)"

definition make_double :: "bool \<Rightarrow> nat \<Rightarrow> int \<Rightarrow> double" where
  "make_double s n e =
     (if n = 0 then Finite s 0 0
      else
        let e' = max (int (bit_length n) + e - 53) (- 1074)
        in if e' \<le> e then
             (if 971 < e' then Infinity s else Finite s (n * 2 ^ nat (e - e')) e')
           else
             let q = round_shift n (nat (e' - e))
             in if q = 0 then Finite s 0 0
                else if q = 2 ^ 53 then
                  (if 971 < e' + 1 then Infinity s else Finite s (2 ^ 52) (e' + 1))
                else if 971 < e' then Infinity s
                else Finite s q e')"

definition dbl :: "int \<Rightarrow> int \<Rightarrow> double" where
  "dbl m e = make_double (m < 0) (nat \<bar>m\<bar>) e"

fun fadd :: "double \<Rightarrow> double \<Rightarrow> double" where
  "fadd (Finite s1 m1 e1) (Finite s2 m2 e2) =
     (let e = min e1 e2;
          a = (if s1 then - 1 else 1) * int m1 * 2 ^ nat (e1 - e)
            + (if s2 then - 1 else 1) * int m2 * 2 ^ nat (e2 - e)
      in if a = 0 then Finite (s1 \<and> s2) 0 0 else make_double (a < 0) (nat \<bar>a\<bar>) e)"
| "fadd (Finite s1 m1 e1) (Infinity s2) = Infinity s2"
| "fadd (Infinity s1) (Finite s2 m2 e2) = Infinity s1"
| "fadd (Infinity s1) (Infinity s2) = (if s1 = s2 then Infinity s1 else NaN)"
| "fadd NaN y = NaN"
| "fadd x NaN = NaN"

fun fneg :: "double \<Rightarrow> double" where
  "fneg (Finite s m e) = Finite (\<not> s) m e"
| "fneg (Infinity s) = Infinity (\<not> s)"
| "fneg NaN = NaN"

definition fsub :: "double \<Rightarrow> double \<Rightarrow> double" where
  "fsub x y = fadd x (fneg y)"

fun fabs :: "double \<Rightarrow> double" where
  "fabs (Finite s m e) = Finite False m e"
| "fabs (Infinity s) = Infinity False"
| "fabs NaN = NaN"

fun fle :: "double \<Rightarrow> double \<Rightarrow> bool" where
  "fle (Finite s1 m1 e1) (Finite s2 m2 e2) =
     (let e = min e1 e2
      in (if s1 then - 1 else 1) * int m1 * 2 ^ nat (e1 - e)
           \<le> (if s2 then - 1 else 1) * int m2 * 2 ^ nat (e2 - e))"
| "fle (Finite s1 m1 e1) (Infinity s2) = (\<not> s2)"
| "fle (Infinity s1) (Finite s2 m2 e2) = s1"
| "fle (Infinity s1) (Infinity s2) = (s1 \<or> \<not> s2)"
| "fle NaN y = False"
| "fle x NaN = False"

definition flt :: "double \<Rightarrow> double \<Rightarrow> bool" where
  "flt x y = (fle x y \<and> \<not> fle y x)"

fun is_zero :: "double \<Rightarrow> bool" where
  "is_zero (Finite s m e) = (m = 0)"
| "is_zero x = False"

fun is_finite :: "double \<Rightarrow> bool" where
  "is_finite (Finite s m e) = True"
| "is_finite x = False"

text \<open>
  The balance of a stokvel is the int \<open>0\<close> it is created with until the first
  contribution, and a float from then on; \<open>sum\<close> returns the int \<open>0\<close> for no items and
  a float otherwise. \<open>0 + x\<close> for the int \<open>0\<close> is \<open>0.0 + x\<close>.
\<close>

datatype number = IntZero | PyFloat double

instantiation number :: zero
begin

definition zero_number :: number where
  "zero_number = IntZero"

instance ..

end

fun py_add :: "number \<Rightarrow> double \<Rightarrow> number" where
  "py_add IntZero x = PyFloat (fadd (Finite False 0 0) x)"
| "py_add (PyFloat b) x = PyFloat (fadd b x)"

text \<open>
  Python's \<open>==\<close> on these numbers: \<open>nan\<close> equals nothing, and \<open>-0.0\<close>, \<open>0.0\<close> and the
  int \<open>0\<close> are equal.
\<close>

fun py_eq :: "number \<Rightarrow> number \<Rightarrow> bool" where
  "py_eq IntZero IntZero = True"
| "py_eq IntZero (PyFloat y) = is_zero y"
| "py_eq (PyFloat x) IntZero = is_zero x"
| "py_eq (PyFloat x) (PyFloat y) = (fle x y \<and> fle y x)"

section \<open>The StokWELL ledger: data model\<close>

text \<open>
  The ledger keeps one nested dictionary \<open>data\<close> with the two keys \<open>"users"\<close> and
  \<open>"stokvels"\<close>. Each inner dictionary with a fixed set of keys is a record here; the
  two top-level dictionaries, keyed by user name and by stokvel name, are maps.
\<close>

record user =
  u_password :: string
  u_balance :: int
  u_transactions :: "string list"
  u_stokvels :: "string list"

record contribution =
  c_user :: string
  c_amount :: double
  c_date :: string

record stokvel =
  s_members :: "string list"
  s_contributions :: "contribution list"
  s_balance :: number
  s_created_date :: string
  s_created_by :: string

record app_data =
  users :: "string \<rightharpoonup> user"
  stokvels :: "string \<rightharpoonup> stokvel"

text \<open>
  The functions of the source mutate \<open>data\<close> in place and write it to the store with
  \<open>save_data\<close>. The world is the dictionary in memory together with the store
  (\<open>None\<close>: nothing was written yet).
\<close>

record world =
  mem :: app_data
  disk :: "app_data option"

text \<open>
  A call either returns the pair \<open>(success, message)\<close> or raises. The only exception
  the registry functions can raise on these data is the \<open>KeyError\<close> of indexing
  \<open>data["users"]\<close> with a name that is not a key.
\<close>

datatype fault = KeyError string

type_synonym reply = "bool \<times> string"

type_synonym outcome = "fault + reply"

text \<open>The record built by \<open>get_stokvel_summary\<close>.\<close>

record summary =
  sm_name :: string
  sm_balance :: number
  sm_total_contributions :: number
  sm_member_count :: nat
  sm_members :: "string list"
  sm_created_date :: string
  sm_created_by :: string

section \<open>Persistence\<close>

text \<open>
  Modelled from the spec: \<open>data_manager.save_data\<close> and \<open>data_manager.load_data\<close>, which
  the registry imports from a module that is not among the sources. \<open>save\<close> writes
  the entire state, overwriting the prior version; \<open>load\<close> returns the empty state
  when no store exists.
\<close>

definition empty_data :: app_data where
  "empty_data = \<lparr>users = Map.empty, stokvels = Map.empty\<rparr>"

definition save_data :: "world \<Rightarrow> world" where
  "save_data w = w\<lparr>disk := Some (mem w)\<rparr>"

definition load_data :: "app_data option \<Rightarrow> app_data" where
  "load_data store = (case store of None \<Rightarrow> empty_data | Some d \<Rightarrow> d)"

definition initial :: world where
  "initial = \<lparr>mem = load_data None, disk = None\<rparr>"

section \<open>utils.py\<close>

text \<open>
  \<open>hashlib.sha256(password.encode()).hexdigest()\<close> is library code; the digest
  function is the parameter \<open>sha\<close> of everything that hashes.
\<close>

definition hash_password :: "(string \<Rightarrow> string) \<Rightarrow> string \<Rightarrow> string" where
  "hash_password sha password = sha password"

definition verify_password :: "(string \<Rightarrow> string) \<Rightarrow> string \<Rightarrow> string \<Rightarrow> bool" where
  "verify_password sha password hashed = (hash_password sha password = hashed)"

text \<open>
  The format \<open>{amount:.2f}\<close> of a float: the exact value times 100, rounded to the
  nearest integer with ties to even, printed with two decimals and with the sign of
  the float (also of \<open>-0.0\<close>); \<open>inf\<close> and \<open>nan\<close> print as such.
\<close>

fun decimal :: "nat \<Rightarrow> string" where
  "decimal n =
     (if n < 10 then [''0123456789'' ! n]
      else decimal (n div 10) @ [''0123456789'' ! (n mod 10)])"

declare decimal.simps [simp del]

fun format_2f :: "double \<Rightarrow> string" where
  "format_2f (Finite s m e) =
     (let q = (if 0 \<le> e then m * 100 * 2 ^ nat e else round_shift (m * 100) (nat (- e)))
      in (if s then ''-'' else '''') @ decimal (q div 100) @ ''.''
           @ [''0123456789'' ! (q mod 100 div 10), ''0123456789'' ! (q mod 10)])"
| "format_2f (Infinity s) = (if s then ''-inf'' else ''inf'')"
| "format_2f NaN = ''nan''"

definition format_currency :: "double \<Rightarrow> string" where
  "format_currency amount = ''R'' @ format_2f amount"

text \<open>
  \<open>validate_amount\<close> is what the command-line front end runs on the typed amount
  before it calls \<open>contribute\<close>. The conversion \<open>float(amount_str)\<close> is the parameter
  \<open>float\<close>, with \<open>None\<close> for its \<open>ValueError\<close>; it also yields \<open>nan\<close> and \<open>inf\<close>, for
  the strings \<open>'nan'\<close> and \<open>'inf'\<close>. The test \<open>amount <= 0\<close> is false for \<open>nan\<close>.
\<close>

definition validate_amount ::
  "(string \<Rightarrow> double option) \<Rightarrow> string \<Rightarrow> double option \<times> string option" where
  "validate_amount float amount_str =
     (case float amount_str of
        None \<Rightarrow> (None, Some ''Invalid amount format'')
      | Some amount \<Rightarrow>
          if fle amount (Finite False 0 0) then (None, Some ''Amount must be positive'')
          else (Some amount, None))"

section \<open>user_manager.py\<close>

text \<open>
  \<open>login_user\<close> tests \<open>user and verify_password(...)\<close>: a user dictionary is false only
  when it has no key at all, and a user record always has its four keys, so the test
  is that the name is a key of the users mapping.
\<close>

definition register_user ::
  "(string \<Rightarrow> string) \<Rightarrow> world \<Rightarrow> string \<Rightarrow> string \<Rightarrow> world \<times> outcome" where
  "register_user sha w username password =
     (let d = mem w in
      if username \<in> dom (users d) then (w, Inr (False, ''Username already exists!''))
      else
        let hashed_password = hash_password sha password;
            d1 = d\<lparr>users := (users d)(username \<mapsto>
                   \<lparr>u_password = hashed_password, u_balance = 0,
                    u_transactions = [], u_stokvels = []\<rparr>)\<rparr>
        in (save_data (w\<lparr>mem := d1\<rparr>),
            Inr (True, ''User '' @ username @ '' registered successfully!'')))"

definition login_user ::
  "(string \<Rightarrow> string) \<Rightarrow> world \<Rightarrow> string \<Rightarrow> string \<Rightarrow> world \<times> outcome" where
  "login_user sha w username password =
     (case users (mem w) username of
        None \<Rightarrow> (w, Inr (False, ''Invalid credentials.''))
      | Some usr \<Rightarrow>
          if verify_password sha password (u_password usr)
          then (w, Inr (True, ''Welcome back, '' @ username @ ''!''))
          else (w, Inr (False, ''Invalid credentials.'')))"

definition update_user_balance :: "world \<Rightarrow> string \<Rightarrow> int \<Rightarrow> world \<times> bool" where
  "update_user_balance w username amount =
     (let d = mem w in
      case users d username of
        Some usr \<Rightarrow>
          (save_data (w\<lparr>mem := d\<lparr>users := (users d)(username \<mapsto>
              usr\<lparr>u_balance := u_balance usr + amount\<rparr>)\<rparr>\<rparr>), True)
      | None \<Rightarrow> (w, False))"

definition add_user_transaction :: "world \<Rightarrow> string \<Rightarrow> string \<Rightarrow> world \<times> bool" where
  "add_user_transaction w username transaction =
     (let d = mem w in
      case users d username of
        Some usr \<Rightarrow>
          (save_data (w\<lparr>mem := d\<lparr>users := (users d)(username \<mapsto>
              usr\<lparr>u_transactions := u_transactions usr @ [transaction]\<rparr>)\<rparr>\<rparr>), True)
      | None \<Rightarrow> (w, False))"

section \<open>stokvel_manager.py\<close>

text \<open>
  \<open>datetime.now()\<close> is read from the environment: \<open>create_stokvel\<close> receives the
  ISO rendering of its reading, \<open>contribute\<close> the ISO rendering of its first reading
  and the \<open>'%Y-%m-%d %H:%M'\<close> rendering of its second. Where the source raises after
  it has changed \<open>data\<close>, the world returned is the one the exception leaves behind.
\<close>

definition create_stokvel ::
  "world \<Rightarrow> string \<Rightarrow> string \<Rightarrow> string \<Rightarrow> world \<times> outcome" where
  "create_stokvel w stokvel_name current_user now_iso =
     (let d = mem w in
      if stokvel_name \<in> dom (stokvels d) then (w, Inr (False, ''Stokvel already exists!''))
      else
        let d1 = d\<lparr>stokvels := (stokvels d)(stokvel_name \<mapsto>
                   \<lparr>s_members = [current_user], s_contributions = [], s_balance = 0,
                    s_created_date = now_iso, s_created_by = current_user\<rparr>)\<rparr>
        in case users d1 current_user of
             None \<Rightarrow> (w\<lparr>mem := d1\<rparr>, Inl (KeyError current_user))
           | Some usr \<Rightarrow>
               let d2 = d1\<lparr>users := (users d1)(current_user \<mapsto>
                          usr\<lparr>u_stokvels := u_stokvels usr @ [stokvel_name]\<rparr>)\<rparr>
               in (save_data (w\<lparr>mem := d2\<rparr>),
                   Inr (True, ''Stokvel '' @ [CHR 0x27] @ stokvel_name @ [CHR 0x27]
                                @ '' created and you have joined it!'')))"

definition contribute ::
  "world \<Rightarrow> string \<Rightarrow> double \<Rightarrow> string \<Rightarrow> string \<Rightarrow> string \<Rightarrow> world \<times> outcome" where
  "contribute w stokvel_name amount current_user now_iso now_stamp =
     (let d = mem w in
      case stokvels d stokvel_name of
        None \<Rightarrow> (w, Inr (False, ''Stokvel not found.''))
      | Some sv \<Rightarrow>
          if current_user \<notin> set (s_members sv)
          then (w, Inr (False, ''You are not a member of this stokvel.''))
          else
            let sv1 = sv\<lparr>s_balance := py_add (s_balance sv) amount\<rparr>;
                contribution_record =
                  \<lparr>c_user = current_user, c_amount = amount, c_date = now_iso\<rparr>;
                sv2 = sv1\<lparr>s_contributions := s_contributions sv1 @ [contribution_record]\<rparr>;
                d1 = d\<lparr>stokvels := (stokvels d)(stokvel_name \<mapsto> sv2)\<rparr>;
                transaction = ''Contributed R'' @ format_2f amount @ '' to '' @ stokvel_name
                                @ '' on '' @ now_stamp
            in (case users d1 current_user of
                  None \<Rightarrow> (w\<lparr>mem := d1\<rparr>, Inl (KeyError current_user))
                | Some usr \<Rightarrow>
                    let d2 = d1\<lparr>users := (users d1)(current_user \<mapsto>
                               usr\<lparr>u_transactions := u_transactions usr @ [transaction]\<rparr>)\<rparr>
                    in (save_data (w\<lparr>mem := d2\<rparr>),
                        Inr (True, ''You contributed R'' @ format_2f amount @ '' to ''
                                     @ stokvel_name @ ''.''))))"

definition get_stokvel_data :: "app_data \<Rightarrow> string \<Rightarrow> stokvel option" where
  "get_stokvel_data d stokvel_name = stokvels d stokvel_name"

definition get_user_stokvels :: "app_data \<Rightarrow> string \<Rightarrow> string list" where
  "get_user_stokvels d username =
     (case users d username of None \<Rightarrow> [] | Some usr \<Rightarrow> u_stokvels usr)"

definition join_stokvel :: "world \<Rightarrow> string \<Rightarrow> string \<Rightarrow> world \<times> outcome" where
  "join_stokvel w stokvel_name username =
     (let d = mem w in
      case stokvels d stokvel_name of
        None \<Rightarrow> (w, Inr (False, ''Stokvel not found.''))
      | Some sv \<Rightarrow>
          if username \<in> set (s_members sv)
          then (w, Inr (False, ''You are already a member of this stokvel.''))
          else
            let d1 = d\<lparr>stokvels := (stokvels d)(stokvel_name \<mapsto>
                       sv\<lparr>s_members := s_members sv @ [username]\<rparr>)\<rparr>
            in (case users d1 username of
                  None \<Rightarrow> (w\<lparr>mem := d1\<rparr>, Inl (KeyError username))
                | Some usr \<Rightarrow>
                    let d2 = d1\<lparr>users := (users d1)(username \<mapsto>
                               usr\<lparr>u_stokvels := u_stokvels usr @ [stokvel_name]\<rparr>)\<rparr>
                    in (save_data (w\<lparr>mem := d2\<rparr>),
                        Inr (True, ''You have joined '' @ stokvel_name @ ''!''))))"

text \<open>
  Python's \<open>sum\<close> on floats, as CPython computes it from version 3.12 on: the first
  item is added to the int \<open>0\<close>, and the other items are added with Neumaier's
  compensated summation, the compensation \<open>c\<close> being added at the end when it is not
  zero and finite. (Up to version 3.11 \<open>sum\<close> adds from the left without
  compensation, as \<open>+=\<close> does on the balance.)
\<close>

fun neumaier :: "double \<Rightarrow> double \<Rightarrow> double list \<Rightarrow> double" where
  "neumaier f c [] = (if \<not> is_zero c \<and> is_finite c then fadd f c else f)"
| "neumaier f c (x # xs) =
     (let t = fadd f x
      in neumaier t
           (if fle (fabs x) (fabs f) then fadd c (fadd (fsub f t) x)
            else fadd c (fadd (fsub x t) f))
           xs)"

fun py_sum :: "double list \<Rightarrow> number" where
  "py_sum [] = 0"
| "py_sum (x # xs) = PyFloat (neumaier (fadd (Finite False 0 0) x) (Finite False 0 0) xs)"

text \<open>
  In \<open>get_stokvel_summary\<close> the test \<open>not stokvel\<close> is true only for a missing key: a
  stokvel record is never an empty dictionary, and
  \<open>stokvel.get("created_date", "Unknown")\<close> always finds the key.
\<close>

definition get_stokvel_summary :: "app_data \<Rightarrow> string \<Rightarrow> summary option" where
  "get_stokvel_summary d stokvel_name =
     (case stokvels d stokvel_name of
        None \<Rightarrow> None
      | Some sv \<Rightarrow>
          let total_contributions = py_sum (map c_amount (s_contributions sv));
              member_count = length (s_members sv)
          in Some \<lparr>sm_name = stokvel_name, sm_balance = s_balance sv,
                    sm_total_contributions = total_contributions,
                    sm_member_count = member_count, sm_members = s_members sv,
                    sm_created_date = s_created_date sv,
                    sm_created_by = s_created_by sv\<rparr>)"

section \<open>Sequences of calls\<close>

text \<open>
  A front end holds one \<open>data\<close> dictionary and calls the registry on it again and
  again. A call that raised leaves the dictionary as it was at the raise, and the
  next call works on that.
\<close>

datatype call =
    Register_user string string
  | Login_user string string
  | Create_stokvel string string string
  | Join_stokvel string string
  | Contribute string double string string string

fun exec :: "(string \<Rightarrow> string) \<Rightarrow> world \<Rightarrow> call \<Rightarrow> world \<times> outcome" where
  "exec sha w (Register_user u p) = register_user sha w u p"
| "exec sha w (Login_user u p) = login_user sha w u p"
| "exec sha w (Create_stokvel s u t) = create_stokvel w s u t"
| "exec sha w (Join_stokvel s u) = join_stokvel w s u"
| "exec sha w (Contribute s a u t t') = contribute w s a u t t'"

definition run :: "(string \<Rightarrow> string) \<Rightarrow> world \<Rightarrow> call list \<Rightarrow> world" where
  "run sha w cs = foldl (\<lambda>w' c. fst (exec sha w' c)) w cs"

section \<open>The failure replies\<close>

text \<open>
  The registry reports a failure as \<open>(False, message)\<close>. These are the replies of the
  source, under the names the error taxonomy gives them.
\<close>

definition DuplicateUser :: reply where
  "DuplicateUser = (False, ''Username already exists!'')"

definition InvalidCredentials :: reply where
  "InvalidCredentials = (False, ''Invalid credentials.'')"

definition DuplicateStokvel :: reply where
  "DuplicateStokvel = (False, ''Stokvel already exists!'')"

definition StokvelNotFound :: reply where
  "StokvelNotFound = (False, ''Stokvel not found.'')"

definition NotAMember :: reply where
  "NotAMember = (False, ''You are not a member of this stokvel.'')"

definition AlreadyMember :: reply where
  "AlreadyMember = (False, ''You are already a member of this stokvel.'')"

section \<open>State predicates\<close>

text \<open>
  What \<open>+=\<close> has made of the balance after contributions of the given amounts, in
  their order, starting from the int \<open>0\<close>.
\<close>

definition running_sum :: "double list \<Rightarrow> number" where
  "running_sum xs = foldl py_add 0 xs"

text \<open>
  No addition on the way has a rounding error: the correction that \<open>sum\<close> computes at
  every step is zero.
\<close>

fun no_rounding :: "double \<Rightarrow> double list \<Rightarrow> bool" where
  "no_rounding f [] = True"
| "no_rounding f (x # xs) =
     (let t = fadd f x
      in is_zero (if fle (fabs x) (fabs f) then fadd (fsub f t) x else fadd (fsub x t) f)
         \<and> no_rounding t xs)"

fun exact_sum :: "double list \<Rightarrow> bool" where
  "exact_sum [] = True"
| "exact_sum (x # xs) = no_rounding (fadd (Finite False 0 0) x) xs"

definition balance_matches :: "app_data \<Rightarrow> bool" where
  "balance_matches d =
     (\<forall>s sv. stokvels d s = Some sv \<longrightarrow>
        s_balance sv = running_sum (map c_amount (s_contributions sv)))"

definition references_consistent :: "app_data \<Rightarrow> bool" where
  "references_consistent d =
     (\<forall>u usr s. users d u = Some usr \<longrightarrow> s \<in> set (u_stokvels usr) \<longrightarrow>
        (\<exists>sv. stokvels d s = Some sv \<and> u \<in> set (s_members sv)))"

definition balances_zero :: "app_data \<Rightarrow> bool" where
  "balances_zero d = (\<forall>u usr. users d u = Some usr \<longrightarrow> u_balance usr = 0)"

text \<open>
  Every name in a member list is a registered user. This is what holds as long as no
  call has raised; \<open>all_returned\<close> says that of a sequence of calls.
\<close>

definition members_registered :: "app_data \<Rightarrow> bool" where
  "members_registered d =
     (\<forall>s sv u. stokvels d s = Some sv \<longrightarrow> u \<in> set (s_members sv) \<longrightarrow> u \<in> dom (users d))"

fun all_returned :: "(string \<Rightarrow> string) \<Rightarrow> world \<Rightarrow> call list \<Rightarrow> bool" where
  "all_returned sha w [] = True"
| "all_returned sha w (c # cs) =
     (case snd (exec sha w c) of
        Inl e \<Rightarrow> False
      | Inr r \<Rightarrow> all_returned sha (fst (exec sha w c)) cs)"

text \<open>
  The history of a user name: the password of the first \<open>register_user\<close> call for
  it in a sequence of calls, if there is one.
\<close>

fun registered_with :: "call list \<Rightarrow> string \<Rightarrow> string option" where
  "registered_with [] u = None"
| "registered_with (Register_user u' p # cs) u =
     (if u' = u then Some p else registered_with cs u)"
| "registered_with (c # cs) u = registered_with cs u"

definition stored_digest :: "app_data \<Rightarrow> string \<Rightarrow> string option" where
  "stored_digest d u = map_option u_password (users d u)"

text \<open>
  The end-to-end scenario: \<open>alice\<close> registers, creates a stokvel and contributes
  \<open>100.0\<close>; then \<open>bob\<close>, who never registered or joined, tries to contribute \<open>50.0\<close>.
  String reversal stands in for the digest where the scenario is evaluated.
\<close>

definition scenario :: "call list" where
  "scenario =
     [Register_user ''alice'' ''pw1'',
      Create_stokvel ''SavingsCircle'' ''alice'' ''2024-05-01T10:00:00'',
      Contribute ''SavingsCircle'' (dbl 100 0) ''alice'' ''2024-05-01T10:05:00''
        ''2024-05-01 10:05'',
      Contribute ''SavingsCircle'' (dbl 50 0) ''bob'' ''2024-05-01T10:06:00''
        ''2024-05-01 10:06'']"

text \<open>
  After the scenario, \<open>join_stokvel\<close> is called for the name \<open>bob\<close>, which was never
  registered.
\<close>

definition scenario_bob_joins :: "call list" where
  "scenario_bob_joins = scenario @ [Join_stokvel ''SavingsCircle'' ''bob'']"

text \<open>
  Three more histories of \<open>alice\<close> and her stokvel: contributions of \<open>0.1\<close>, \<open>0.2\<close> and
  \<open>0.3\<close> (the doubles \<open>0x1.999999999999ap-4\<close>, \<open>0x1.999999999999ap-3\<close> and
  \<open>0x1.3333333333333p-2\<close>); one contribution of \<open>nan\<close>, the float of the string
  \<open>'nan'\<close>; and contributions of \<open>1e16\<close> and then \<open>1.0\<close>.
\<close>

definition alice_opens :: "call list" where
  "alice_opens =
     [Register_user ''alice'' ''pw1'',
      Create_stokvel ''SavingsCircle'' ''alice'' ''2024-05-01T10:00:00'']"

definition give :: "double \<Rightarrow> call" where
  "give a = Contribute ''SavingsCircle'' a ''alice'' ''2024-05-01T10:05:00'' ''2024-05-01 10:05''"

definition scenario_tenths :: "call list" where
  "scenario_tenths =
     alice_opens @ [give (dbl 7205759403792794 (- 56)), give (dbl 7205759403792794 (- 55)),
                    give (dbl 5404319552844595 (- 54))]"

definition scenario_nan :: "call list" where
  "scenario_nan = alice_opens @ [give NaN]"

definition scenario_large :: "call list" where
  "scenario_large = alice_opens @ [give (dbl (10 ^ 16) 0)]"

text \<open>
  The user on whose behalf a call is made is a key of \<open>data["users"]\<close>: the front ends
  pass the name of the user who is logged in.
\<close>

fun caller_registered :: "app_data \<Rightarrow> call \<Rightarrow> bool" where
  "caller_registered d (Register_user u p) = True"
| "caller_registered d (Login_user u p) = True"
| "caller_registered d (Create_stokvel s u t) = (u \<in> dom (users d))"
| "caller_registered d (Join_stokvel s u) = (u \<in> dom (users d))"
| "caller_registered d (Contribute s a u t t') = (u \<in> dom (users d))"

text \<open>The four calls that change the state; \<open>login_user\<close> only reads it.\<close>

fun mutating :: "call \<Rightarrow> bool" where
  "mutating (Login_user u p) = False"
| "mutating c = True"

text \<open>
  What the complete change of each call is, from the state \<open>d\<close> before it to the state
  \<open>d'\<close> after it: every part of the mutation is there.
\<close>

fun fully_applied :: "(string \<Rightarrow> string) \<Rightarrow> app_data \<Rightarrow> call \<Rightarrow> app_data \<Rightarrow> bool" where
  "fully_applied sha d (Register_user u p) d' =
     (users d' = (users d)(u \<mapsto> \<lparr>u_password = sha p, u_balance = 0,
                                    u_transactions = [], u_stokvels = []\<rparr>)
      \<and> stokvels d' = stokvels d)"
| "fully_applied sha d (Login_user u p) d' = (d' = d)"
| "fully_applied sha d (Create_stokvel s u t) d' =
     (case users d u of
        None \<Rightarrow> False
      | Some usr \<Rightarrow>
          users d' = (users d)(u \<mapsto> usr\<lparr>u_stokvels := u_stokvels usr @ [s]\<rparr>)
          \<and> stokvels d' = (stokvels d)(s \<mapsto>
                \<lparr>s_members = [u], s_contributions = [], s_balance = 0,
                 s_created_date = t, s_created_by = u\<rparr>))"
| "fully_applied sha d (Join_stokvel s u) d' =
     (case (users d u, stokvels d s) of
        (Some usr, Some sv) \<Rightarrow>
          users d' = (users d)(u \<mapsto> usr\<lparr>u_stokvels := u_stokvels usr @ [s]\<rparr>)
          \<and> stokvels d' = (stokvels d)(s \<mapsto> sv\<lparr>s_members := s_members sv @ [u]\<rparr>)
      | _ \<Rightarrow> False)"
| "fully_applied sha d (Contribute s a u t t') d' =
     (case (users d u, stokvels d s) of
        (Some usr, Some sv) \<Rightarrow>
          users d' = (users d)(u \<mapsto> usr\<lparr>u_transactions := u_transactions usr @
                [''Contributed R'' @ format_2f a @ '' to '' @ s @ '' on '' @ t']\<rparr>)
          \<and> stokvels d' = (stokvels d)(s \<mapsto>
                sv\<lparr>s_balance := py_add (s_balance sv) a,
                   s_contributions := s_contributions sv @
                     [\<lparr>c_user = u, c_amount = a, c_date = t\<rparr>]\<rparr>)
      | _ \<Rightarrow> False)"

section \<open>Basic facts\<close>

lemmas registry_defs =
  register_user_def login_user_def create_stokvel_def contribute_def join_stokvel_def
  save_data_def Let_def

lemmas initial_defs = initial_def load_data_def empty_data_def

subsection \<open>Evaluating floats\<close>

lemma bit_length_zero: "bit_length 0 = 0"
  by (simp add: bit_length.simps)

lemma bit_length_pos: "0 < n \<Longrightarrow> bit_length n = Suc (bit_length (n div 2))"
  by (subst bit_length.simps) simp

lemma decimal_digit: "n < 10 \<Longrightarrow> decimal n = [''0123456789'' ! n]"
  by (simp add: decimal.simps)

lemma decimal_more:
  "10 \<le> n \<Longrightarrow> decimal n = decimal (n div 10) @ [''0123456789'' ! (n mod 10)]"
  by (subst decimal.simps) simp

lemmas float_defs =
  dbl_def make_double_def round_shift_def bit_length_zero bit_length_pos fsub_def
  decimal_digit decimal_more zero_number_def

subsection \<open>The running sum\<close>

lemma running_sum_Nil: "running_sum [] = 0"
  by (simp add: running_sum_def)

lemma running_sum_snoc: "running_sum (xs @ [a]) = py_add (running_sum xs) a"
  by (simp add: running_sum_def)

subsection \<open>Sequences of calls\<close>

lemma run_Nil: "run sha w [] = w"
  by (simp add: run_def)

lemma run_Cons: "run sha w (c # cs) = run sha (fst (exec sha w c)) cs"
  by (simp add: run_def)

lemma run_invariant:
  assumes "P (mem w)"
    and "\<And>w' c. P (mem w') \<Longrightarrow> P (mem (fst (exec sha w' c)))"
  shows "P (mem (run sha w cs))"
  using assms(1)
proof (induction cs arbitrary: w)
  case Nil
  then show ?case by (simp add: run_Nil)
next
  case (Cons c cs)
  then show ?case by (simp add: run_Cons assms(2))
qed

subsection \<open>Each call keeps the three state predicates\<close>

lemma balance_matches_exec:
  "balance_matches (mem w) \<Longrightarrow> balance_matches (mem (fst (exec sha w c)))"
  by (cases c)
     (auto simp: balance_matches_def registry_defs running_sum_snoc running_sum_Nil
           split: option.splits if_splits)

lemma references_consistent_exec:
  "references_consistent (mem w) \<Longrightarrow> references_consistent (mem (fst (exec sha w c)))"
  apply (cases c)
      apply (auto simp: references_consistent_def registry_defs split: option.splits if_splits)
     apply (metis option.inject)+
  done

lemma balances_zero_exec:
  "balances_zero (mem w) \<Longrightarrow> balances_zero (mem (fst (exec sha w c)))"
  by (cases c)
     (auto simp: balances_zero_def registry_defs split: option.splits if_splits)

lemma balance_matches_initial: "balance_matches (mem initial)"
  by (simp add: balance_matches_def initial_defs)

lemma references_consistent_initial: "references_consistent (mem initial)"
  by (simp add: references_consistent_def initial_defs)

lemma balances_zero_initial: "balances_zero (mem initial)"
  by (simp add: balances_zero_def initial_defs)

lemma balance_matches_run: "balance_matches (mem (run sha initial cs))"
  by (rule run_invariant [where P = balance_matches])
     (simp_all add: balance_matches_initial balance_matches_exec)

lemma references_consistent_run: "references_consistent (mem (run sha initial cs))"
  by (rule run_invariant [where P = references_consistent])
     (simp_all add: references_consistent_initial references_consistent_exec)

lemma balances_zero_run: "balances_zero (mem (run sha initial cs))"
  by (rule run_invariant [where P = balances_zero])
     (simp_all add: balances_zero_initial balances_zero_exec)

subsection \<open>What a call does to one user\<close>

lemma exec_keeps_user:
  "users (mem w) u = Some usr \<Longrightarrow>
     \<exists>usr'. users (mem (fst (exec sha w c))) u = Some usr' \<and> u_balance usr' = u_balance usr
        \<and> u_password usr' = u_password usr"
  by (cases c) (auto simp: registry_defs split: option.splits if_splits)

lemma exec_new_user:
  "users (mem w) u = None \<Longrightarrow> users (mem (fst (exec sha w c))) u = Some usr' \<Longrightarrow>
     \<exists>p. c = Register_user u p \<and>
       usr' = \<lparr>u_password = sha p, u_balance = 0, u_transactions = [], u_stokvels = []\<rparr>"
  by (cases c) (auto simp: registry_defs hash_password_def split: option.splits if_splits)

lemma exec_register_new:
  "users (mem w) u = None \<Longrightarrow>
     users (mem (fst (exec sha w (Register_user u p)))) u =
       Some \<lparr>u_password = sha p, u_balance = 0, u_transactions = [], u_stokvels = []\<rparr>"
  by (simp add: registry_defs hash_password_def domIff)

subsection \<open>The stored digest of a user follows the history of calls\<close>

lemma stored_digest_exec:
  "stored_digest (mem (fst (exec sha w c))) u =
     (case stored_digest (mem w) u of
        Some h \<Rightarrow> Some h
      | None \<Rightarrow> map_option sha (registered_with [c] u))"
proof (cases "users (mem w) u")
  case None
  show ?thesis
  proof (cases "\<exists>p. c = Register_user u p")
    case True
    then obtain p where "c = Register_user u p" by blast
    with None exec_register_new [OF None, of sha p] show ?thesis
      by (simp add: stored_digest_def)
  next
    case False
    with None exec_new_user [OF None, of sha c] have "users (mem (fst (exec sha w c))) u = None"
      by (metis not_Some_eq)
    moreover from False have "registered_with [c] u = None"
      by (cases c) auto
    ultimately show ?thesis using None by (simp add: stored_digest_def)
  qed
next
  case (Some usr)
  with exec_keeps_user [OF Some, of sha c] show ?thesis
    by (auto simp: stored_digest_def)
qed

lemma registered_with_Cons:
  "registered_with (c # cs) u =
     (case registered_with [c] u of Some p \<Rightarrow> Some p | None \<Rightarrow> registered_with cs u)"
  by (cases c) auto

lemma stored_digest_run:
  "stored_digest (mem (run sha w cs)) u =
     (case stored_digest (mem w) u of
        Some h \<Rightarrow> Some h
      | None \<Rightarrow> map_option sha (registered_with cs u))"
proof (induction cs arbitrary: w)
  case Nil
  show ?case by (simp add: run_Nil split: option.splits)
next
  case (Cons c cs)
  have "stored_digest (mem (run sha w (c # cs))) u =
      (case stored_digest (mem (fst (exec sha w c))) u of
         Some h \<Rightarrow> Some h
       | None \<Rightarrow> map_option sha (registered_with cs u))"
    by (simp add: run_Cons Cons.IH)
  also have "\<dots> =
      (case stored_digest (mem w) u of
         Some h \<Rightarrow> Some h
       | None \<Rightarrow> map_option sha (registered_with (c # cs) u))"
    by (simp add: stored_digest_exec registered_with_Cons [of c cs] split: option.splits)
  finally show ?case .
qed

lemma stored_digest_reached:
  "stored_digest (mem (run sha initial cs)) u = map_option sha (registered_with cs u)"
  by (simp add: stored_digest_run) (simp add: stored_digest_def initial_defs)

lemma login_user_reply:
  "login_user sha w u p =
     (w, if stored_digest (mem w) u = Some (sha p)
         then Inr (True, ''Welcome back, '' @ u @ ''!'') else Inr InvalidCredentials)"
  by (auto simp: login_user_def stored_digest_def verify_password_def hash_password_def
        InvalidCredentials_def split: option.splits)

subsection \<open>Evaluating the calls on concrete data\<close>

lemmas eval_defs =
  run_def scenario_def scenario_bob_joins_def alice_opens_def give_def scenario_tenths_def
  scenario_nan_def scenario_large_def registry_defs initial_defs hash_password_def
  verify_password_def float_defs

subsection \<open>Without a raise, every member is a registered user\<close>

lemma members_registered_exec:
  "members_registered (mem w) \<Longrightarrow> snd (exec sha w c) = Inr r \<Longrightarrow>
     members_registered (mem (fst (exec sha w c)))"
  by (cases c)
     (auto simp: members_registered_def registry_defs split: option.splits if_splits)

lemma members_registered_run:
  "members_registered (mem w) \<Longrightarrow> all_returned sha w cs \<Longrightarrow>
     members_registered (mem (run sha w cs))"
proof (induction cs arbitrary: w)
  case Nil
  then show ?case by (simp add: run_Nil)
next
  case (Cons c cs)
  then show ?case
    by (auto simp: run_Cons members_registered_exec split: sum.splits)
qed

lemma members_registered_reached:
  "all_returned sha initial cs \<Longrightarrow> members_registered (mem (run sha initial cs))"
  by (rule members_registered_run) (simp_all add: members_registered_def initial_defs)

subsection \<open>The replies of the scenario\<close>

lemma scenario_replies:
  "snd (exec rev initial (scenario ! 0)) = Inr (True, ''User alice registered successfully!'')
   \<and> snd (exec rev (run rev initial (take 1 scenario)) (scenario ! 1)) =
       Inr (True, ''Stokvel '' @ [CHR 0x27] @ ''SavingsCircle'' @ [CHR 0x27]
                    @ '' created and you have joined it!'')
   \<and> snd (exec rev (run rev initial (take 2 scenario)) (scenario ! 2)) =
       Inr (True, ''You contributed R100.00 to SavingsCircle.'')
   \<and> snd (exec rev (run rev initial (take 3 scenario)) (scenario ! 3)) = Inr NotAMember
   \<and> all_returned rev initial scenario"
  by (simp add: eval_defs NotAMember_def)

subsection \<open>A contribution by a registered member\<close>

lemma contribute_member:
  assumes "stokvels (mem w) s = Some sv" and "u \<in> set (s_members sv)"
    and "users (mem w) u = Some usr"
  shows "contribute w s a u t t' =
     (let sv' = sv\<lparr>s_balance := py_add (s_balance sv) a,
                   s_contributions := s_contributions sv @
                     [\<lparr>c_user = u, c_amount = a, c_date = t\<rparr>]\<rparr>;
          usr' = usr\<lparr>u_transactions := u_transactions usr @
                     [''Contributed R'' @ format_2f a @ '' to '' @ s @ '' on '' @ t']\<rparr>;
          d' = \<lparr>users = (users (mem w))(u \<mapsto> usr'),
                stokvels = (stokvels (mem w))(s \<mapsto> sv')\<rparr>
      in (\<lparr>mem = d', disk = Some d'\<rparr>,
          Inr (True, ''You contributed R'' @ format_2f a @ '' to '' @ s @ ''.'')))"
  using assms by (simp add: contribute_def Let_def save_data_def)

lemma contribute_effect:
  assumes "stokvels (mem w) s = Some sv" and "u \<in> set (s_members sv)"
    and "users (mem w) u = Some usr"
  shows "\<exists>w' sv' usr'.
      contribute w s a u t t' =
        (w', Inr (True, ''You contributed R'' @ format_2f a @ '' to '' @ s @ ''.''))
      \<and> disk w' = Some (mem w')
      \<and> stokvels (mem w') = (stokvels (mem w))(s \<mapsto> sv')
      \<and> s_balance sv' = py_add (s_balance sv) a
      \<and> s_contributions sv' = s_contributions sv @ [\<lparr>c_user = u, c_amount = a, c_date = t\<rparr>]
      \<and> s_members sv' = s_members sv
      \<and> s_created_date sv' = s_created_date sv \<and> s_created_by sv' = s_created_by sv
      \<and> users (mem w') = (users (mem w))(u \<mapsto> usr')
      \<and> u_transactions usr' = u_transactions usr @
            [''Contributed R'' @ format_2f a @ '' to '' @ s @ '' on '' @ t']
      \<and> u_balance usr' = u_balance usr \<and> u_password usr' = u_password usr
      \<and> u_stokvels usr' = u_stokvels usr"
proof -
  define sv' where "sv' = sv\<lparr>s_balance := py_add (s_balance sv) a,
      s_contributions := s_contributions sv @ [\<lparr>c_user = u, c_amount = a, c_date = t\<rparr>]\<rparr>"
  define usr' where "usr' = usr\<lparr>u_transactions := u_transactions usr @
      [''Contributed R'' @ format_2f a @ '' to '' @ s @ '' on '' @ t']\<rparr>"
  define d' where "d' = \<lparr>users = (users (mem w))(u \<mapsto> usr'),
      stokvels = (stokvels (mem w))(s \<mapsto> sv')\<rparr>"
  define w' where "w' = \<lparr>mem = d', disk = Some d'\<rparr>"
  have "contribute w s a u t t' =
      (w', Inr (True, ''You contributed R'' @ format_2f a @ '' to '' @ s @ ''.''))"
    unfolding contribute_member [OF assms] Let_def w'_def d'_def usr'_def sv'_def ..
  moreover have "disk w' = Some (mem w')" "stokvels (mem w') = (stokvels (mem w))(s \<mapsto> sv')"
    "users (mem w') = (users (mem w))(u \<mapsto> usr')"
    by (simp_all add: w'_def d'_def)
  moreover have "s_balance sv' = py_add (s_balance sv) a"
    "s_contributions sv' = s_contributions sv @ [\<lparr>c_user = u, c_amount = a, c_date = t\<rparr>]"
    "s_members sv' = s_members sv" "s_created_date sv' = s_created_date sv"
    "s_created_by sv' = s_created_by sv"
    by (simp_all add: sv'_def)
  moreover have "u_transactions usr' = u_transactions usr @
      [''Contributed R'' @ format_2f a @ '' to '' @ s @ '' on '' @ t']"
    "u_balance usr' = u_balance usr" "u_password usr' = u_password usr"
    "u_stokvels usr' = u_stokvels usr"
    by (simp_all add: usr'_def)
  ultimately show ?thesis by blast
qed

subsection \<open>Python's \<open>sum\<close> and the running sum\<close>

lemma is_zero_fadd: "is_zero a \<Longrightarrow> is_zero b \<Longrightarrow> is_zero (fadd a b)"
  by (cases a; cases b) (simp_all add: Let_def)

lemma neumaier_exact:
  "is_zero c \<Longrightarrow> no_rounding f xs \<Longrightarrow> neumaier f c xs = foldl fadd f xs"
proof (induction xs arbitrary: f c)
  case Nil
  then show ?case by simp
next
  case (Cons x xs)
  then show ?case
    by (simp add: Let_def is_zero_fadd split: if_splits)
qed

lemma foldl_py_add_float: "foldl py_add (PyFloat b) xs = PyFloat (foldl fadd b xs)"
  by (induction xs arbitrary: b) simp_all

lemma py_sum_exact: "exact_sum xs \<Longrightarrow> py_sum xs = running_sum xs"
  by (cases xs)
     (simp_all add: running_sum_def zero_number_def foldl_py_add_float neumaier_exact)

lemma fle_refl: "x \<noteq> NaN \<Longrightarrow> fle x x"
  by (cases x) (simp_all add: Let_def)

lemma py_eq_same: "py_eq x x = (x \<noteq> PyFloat NaN)"
  by (cases x) (auto simp: fle_refl)

section \<open>The claims\<close>

text \<open>
  C1, as amended: \<open>contribute\<close> has no check of the amount. For a stokvel that
  exists, a member of it who is a registered user, and a float amount \<open>a \<le> 0\<close>, the
  call succeeds: the balance of the stokvel becomes \<open>balance + a\<close> as Python adds
  floats, one contribution record and one transaction string are appended, and the
  state is written to the store. The rejection of amounts that are not positive is
  in \<open>validate_amount\<close>, which the command-line front end runs before the call.
\<close>

theorem contribute_nonpositive_amended:
  assumes "stokvels (mem w) s = Some sv" and "u \<in> set (s_members sv)"
    and "users (mem w) u = Some usr" and "fle a (Finite False 0 0)"
  shows "(\<exists>w' sv' usr'.
      contribute w s a u t t' =
        (w', Inr (True, ''You contributed R'' @ format_2f a @ '' to '' @ s @ ''.''))
      \<and> disk w' = Some (mem w')
      \<and> stokvels (mem w') = (stokvels (mem w))(s \<mapsto> sv')
      \<and> s_balance sv' = py_add (s_balance sv) a
      \<and> s_contributions sv' = s_contributions sv @ [\<lparr>c_user = u, c_amount = a, c_date = t\<rparr>]
      \<and> users (mem w') = (users (mem w))(u \<mapsto> usr')
      \<and> u_transactions usr' = u_transactions usr @
            [''Contributed R'' @ format_2f a @ '' to '' @ s @ '' on '' @ t'])
    \<and> (float str = Some a \<longrightarrow>
          validate_amount float str = (None, Some ''Amount must be positive''))"
proof
  from contribute_effect [OF assms(1-3), of a t t']
  show "\<exists>w' sv' usr'.
      contribute w s a u t t' =
        (w', Inr (True, ''You contributed R'' @ format_2f a @ '' to '' @ s @ ''.''))
      \<and> disk w' = Some (mem w')
      \<and> stokvels (mem w') = (stokvels (mem w))(s \<mapsto> sv')
      \<and> s_balance sv' = py_add (s_balance sv) a
      \<and> s_contributions sv' = s_contributions sv @ [\<lparr>c_user = u, c_amount = a, c_date = t\<rparr>]
      \<and> users (mem w') = (users (mem w))(u \<mapsto> usr')
      \<and> u_transactions usr' = u_transactions usr @
            [''Contributed R'' @ format_2f a @ '' to '' @ s @ '' on '' @ t']"
    by blast
next
  from assms(4) show "float str = Some a \<longrightarrow>
      validate_amount float str = (None, Some ''Amount must be positive'')"
    by (simp add: validate_amount_def)
qed

theorem contribute_nonpositive_amended_witness:
  "stokvels (mem (run rev initial scenario)) ''SavingsCircle'' =
     Some \<lparr>s_members = [''alice''],
           s_contributions = [\<lparr>c_user = ''alice'', c_amount = dbl 100 0,
                                c_date = ''2024-05-01T10:05:00''\<rparr>],
           s_balance = PyFloat (dbl 100 0), s_created_date = ''2024-05-01T10:00:00'',
           s_created_by = ''alice''\<rparr>
   \<and> ''alice'' \<in> set [''alice'']
   \<and> users (mem (run rev initial scenario)) ''alice'' =
     Some \<lparr>u_password = ''1wp'', u_balance = 0,
           u_transactions = [''Contributed R100.00 to SavingsCircle on 2024-05-01 10:05''],
           u_stokvels = [''SavingsCircle'']\<rparr>
   \<and> fle (Finite False 0 0) (Finite False 0 0)
   \<and> snd (contribute (run rev initial scenario) ''SavingsCircle'' (Finite False 0 0) ''alice''
        ''2024-05-02T09:00:00'' ''2024-05-02 09:00'') =
      Inr (True, ''You contributed R0.00 to SavingsCircle.'')
   \<and> stokvels (mem (fst (contribute (run rev initial scenario) ''SavingsCircle''
        (Finite False 0 0) ''alice'' ''2024-05-02T09:00:00'' ''2024-05-02 09:00'')))
        ''SavingsCircle'' =
     Some \<lparr>s_members = [''alice''],
           s_contributions = [\<lparr>c_user = ''alice'', c_amount = dbl 100 0,
                                c_date = ''2024-05-01T10:05:00''\<rparr>,
                              \<lparr>c_user = ''alice'', c_amount = Finite False 0 0,
                                c_date = ''2024-05-02T09:00:00''\<rparr>],
           s_balance = PyFloat (dbl 100 0), s_created_date = ''2024-05-01T10:00:00'',
           s_created_by = ''alice''\<rparr>
   \<and> (\<lambda>x. if x = ''0'' then Some (Finite False 0 0) else None) ''0'' = Some (Finite False 0 0)
   \<and> validate_amount (\<lambda>x. if x = ''0'' then Some (Finite False 0 0) else None) ''0'' =
        (None, Some ''Amount must be positive'')"
proof -
  have sv: "stokvels (mem (run rev initial scenario)) ''SavingsCircle'' =
     Some \<lparr>s_members = [''alice''],
           s_contributions = [\<lparr>c_user = ''alice'', c_amount = dbl 100 0,
                                c_date = ''2024-05-01T10:05:00''\<rparr>],
           s_balance = PyFloat (dbl 100 0), s_created_date = ''2024-05-01T10:00:00'',
           s_created_by = ''alice''\<rparr>"
    by (simp add: eval_defs)
  have usr: "users (mem (run rev initial scenario)) ''alice'' =
     Some \<lparr>u_password = ''1wp'', u_balance = 0,
           u_transactions = [''Contributed R100.00 to SavingsCircle on 2024-05-01 10:05''],
           u_stokvels = [''SavingsCircle'']\<rparr>"
    by (simp add: eval_defs)
  have le: "fle (Finite False 0 0) (Finite False 0 0)"
    by simp
  note spec = contribute_nonpositive_amended [OF sv _ usr le, of
      "''2024-05-02T09:00:00''" "''2024-05-02 09:00''"
      "\<lambda>x. if x = ''0'' then Some (Finite False 0 0) else None" "''0''"]
  from spec have v: "validate_amount (\<lambda>x. if x = ''0'' then Some (Finite False 0 0) else None)
      ''0'' = (None, Some ''Amount must be positive'')"
    by simp
  from spec obtain w' where
    "contribute (run rev initial scenario) ''SavingsCircle'' (Finite False 0 0) ''alice''
        ''2024-05-02T09:00:00'' ''2024-05-02 09:00'' =
      (w', Inr (True, ''You contributed R'' @ format_2f (Finite False 0 0) @ '' to ''
         @ ''SavingsCircle'' @ ''.''))"
    by auto
  then have "snd (contribute (run rev initial scenario) ''SavingsCircle'' (Finite False 0 0)
        ''alice'' ''2024-05-02T09:00:00'' ''2024-05-02 09:00'') =
      Inr (True, ''You contributed R0.00 to SavingsCircle.'')"
    by (simp add: float_defs)
  with sv usr v show ?thesis
    by (simp add: contribute_def Let_def save_data_def float_defs)
qed

text \<open>
  C1 as stated fails: after the scenario, a contribution of \<open>-5.0\<close> by the member
  \<open>alice\<close> is reported as a success, and the balance of the stokvel goes from
  \<open>100.0\<close> to \<open>95.0\<close>.
\<close>

theorem contribute_nonpositive_counterexample:
  "map_option s_members (stokvels (mem (run rev initial scenario)) ''SavingsCircle'') =
        Some [''alice'']
   \<and> map_option s_balance (stokvels (mem (run rev initial scenario)) ''SavingsCircle'') =
        Some (PyFloat (dbl 100 0))
   \<and> fle (dbl (- 5) 0) (Finite False 0 0)
   \<and> snd (contribute (run rev initial scenario) ''SavingsCircle'' (dbl (- 5) 0) ''alice''
        ''2024-05-02T09:00:00'' ''2024-05-02 09:00'') =
      Inr (True, ''You contributed R-5.00 to SavingsCircle.'')
   \<and> map_option s_balance (stokvels (mem (fst (contribute (run rev initial scenario)
        ''SavingsCircle'' (dbl (- 5) 0) ''alice'' ''2024-05-02T09:00:00'' ''2024-05-02 09:00'')))
        ''SavingsCircle'') = Some (PyFloat (dbl 95 0))"
  by (simp add: eval_defs)


text \<open>
  C2, as amended: when the user on whose behalf \<open>create_stokvel\<close>, \<open>join_stokvel\<close>
  or \<open>contribute\<close> is called is registered (and for every call of \<open>register_user\<close>),
  the call either fails and leaves memory and store exactly as they were, or succeeds
  with its complete change applied and written to the store. The amount of a
  contribution is a float, any float.
\<close>

theorem registry_call_atomic:
  assumes "mutating c" and "caller_registered (mem w) c"
  shows "(\<exists>msg. exec sha w c = (w, Inr (False, msg)))
    \<or> (\<exists>msg w'. exec sha w c = (w', Inr (True, msg)) \<and> disk w' = Some (mem w')
          \<and> fully_applied sha (mem w) c (mem w'))"
proof (cases c)
  case (Register_user u p)
  then show ?thesis
    by (simp add: register_user_def Let_def save_data_def hash_password_def)
next
  case (Login_user u p)
  with assms(1) show ?thesis by simp
next
  case (Create_stokvel s u t)
  with assms(2) obtain usr where "users (mem w) u = Some usr" by auto
  with Create_stokvel show ?thesis
    by (simp add: create_stokvel_def Let_def save_data_def)
next
  case (Join_stokvel s u)
  with assms(2) obtain usr where "users (mem w) u = Some usr" by auto
  with Join_stokvel show ?thesis
    by (simp add: join_stokvel_def Let_def save_data_def split: option.splits)
next
  case (Contribute s a u t t')
  with assms(2) obtain usr where "users (mem w) u = Some usr" by auto
  with Contribute show ?thesis
    by (simp add: contribute_def Let_def save_data_def split: option.splits)
qed

theorem registry_call_atomic_witness:
  "mutating (Create_stokvel ''SavingsCircle'' ''alice'' ''2024-05-01T10:00:00'')
   \<and> caller_registered (mem (fst (register_user rev initial ''alice'' ''pw1'')))
        (Create_stokvel ''SavingsCircle'' ''alice'' ''2024-05-01T10:00:00'')
   \<and> snd (exec rev (fst (register_user rev initial ''alice'' ''pw1''))
        (Create_stokvel ''SavingsCircle'' ''alice'' ''2024-05-01T10:00:00'')) =
      Inr (True, ''Stokvel '' @ [CHR 0x27] @ ''SavingsCircle'' @ [CHR 0x27]
                   @ '' created and you have joined it!'')
   \<and> disk (fst (exec rev (fst (register_user rev initial ''alice'' ''pw1''))
        (Create_stokvel ''SavingsCircle'' ''alice'' ''2024-05-01T10:00:00''))) =
      Some (mem (fst (exec rev (fst (register_user rev initial ''alice'' ''pw1''))
        (Create_stokvel ''SavingsCircle'' ''alice'' ''2024-05-01T10:00:00''))))"
  using registry_call_atomic [of "Create_stokvel ''SavingsCircle'' ''alice'' ''2024-05-01T10:00:00''"
      "fst (register_user rev initial ''alice'' ''pw1'')" rev]
  by (simp add: eval_defs)

text \<open>
  C2 as stated fails: \<open>create_stokvel\<close> on the empty state for a name that is not
  registered stores the new stokvel and then raises \<open>KeyError\<close> at
  \<open>data["users"][current_user]\<close>; the creator's stokvel list is not written and
  nothing is saved.
\<close>

theorem create_stokvel_partial_counterexample:
  "snd (create_stokvel initial ''SavingsCircle'' ''ghost'' ''2024-05-01T10:00:00'') =
      Inl (KeyError ''ghost'')
   \<and> stokvels (mem initial) ''SavingsCircle'' = None
   \<and> stokvels (mem (fst (create_stokvel initial ''SavingsCircle'' ''ghost''
        ''2024-05-01T10:00:00''))) ''SavingsCircle'' =
      Some \<lparr>s_members = [''ghost''], s_contributions = [], s_balance = 0,
            s_created_date = ''2024-05-01T10:00:00'', s_created_by = ''ghost''\<rparr>
   \<and> disk (fst (create_stokvel initial ''SavingsCircle'' ''ghost'' ''2024-05-01T10:00:00'')) = None"
  by (simp add: eval_defs)

text \<open>
  C3, as amended: in every state reached from the empty state by any sequence of
  calls of \<open>register_user\<close>, \<open>login_user\<close>, \<open>create_stokvel\<close>, \<open>join_stokvel\<close> and
  \<open>contribute\<close>, the balance of every stokvel is what \<open>+=\<close> makes of the amounts of its
  contributions, added as floats in their order to the int \<open>0\<close>.
  \<open>get_stokvel_summary\<close> of an existing stokvel returns a record with that balance
  and with Python's \<open>sum\<close> of the amounts as \<open>total_contributions\<close>. When no addition
  on the way has a rounding error the two are the same number, and \<open>==\<close> holds of
  them exactly when the balance is not \<open>nan\<close>. The states include those a call
  leaves behind when it raises.
\<close>

theorem balance_is_running_sum:
  "stokvels (mem (run sha initial cs)) s = Some sv \<Longrightarrow>
     s_balance sv = running_sum (map c_amount (s_contributions sv))
     \<and> (\<exists>r. get_stokvel_summary (mem (run sha initial cs)) s = Some r
            \<and> sm_balance r = s_balance sv
            \<and> sm_total_contributions r = py_sum (map c_amount (s_contributions sv))
            \<and> (exact_sum (map c_amount (s_contributions sv)) \<longrightarrow>
                  sm_total_contributions r = sm_balance r
                  \<and> py_eq (sm_total_contributions r) (sm_balance r) =
                      (s_balance sv \<noteq> PyFloat NaN)))"
proof -
  assume sv: "stokvels (mem (run sha initial cs)) s = Some sv"
  with balance_matches_run [of sha cs]
  have bal: "s_balance sv = running_sum (map c_amount (s_contributions sv))"
    by (simp add: balance_matches_def)
  have "exact_sum (map c_amount (s_contributions sv)) \<Longrightarrow>
      py_sum (map c_amount (s_contributions sv)) = s_balance sv"
    by (simp add: bal py_sum_exact)
  with sv bal show ?thesis
    by (simp add: get_stokvel_summary_def py_eq_same)
qed

theorem balance_is_running_sum_witness:
  "stokvels (mem (run rev initial (scenario @ [give (dbl 25 0)]))) ''SavingsCircle'' =
     Some \<lparr>s_members = [''alice''],
           s_contributions = [\<lparr>c_user = ''alice'', c_amount = dbl 100 0,
                                c_date = ''2024-05-01T10:05:00''\<rparr>,
                              \<lparr>c_user = ''alice'', c_amount = dbl 25 0,
                                c_date = ''2024-05-01T10:05:00''\<rparr>],
           s_balance = PyFloat (dbl 125 0), s_created_date = ''2024-05-01T10:00:00'',
           s_created_by = ''alice''\<rparr>
   \<and> exact_sum [dbl 100 0, dbl 25 0]
   \<and> running_sum [dbl 100 0, dbl 25 0] = PyFloat (dbl 125 0)
   \<and> map_option sm_total_contributions
        (get_stokvel_summary (mem (run rev initial (scenario @ [give (dbl 25 0)])))
           ''SavingsCircle'') = Some (PyFloat (dbl 125 0))
   \<and> py_eq (PyFloat (dbl 125 0)) (PyFloat (dbl 125 0))"
proof -
  have sv: "stokvels (mem (run rev initial (scenario @ [give (dbl 25 0)]))) ''SavingsCircle'' =
     Some \<lparr>s_members = [''alice''],
           s_contributions = [\<lparr>c_user = ''alice'', c_amount = dbl 100 0,
                                c_date = ''2024-05-01T10:05:00''\<rparr>,
                              \<lparr>c_user = ''alice'', c_amount = dbl 25 0,
                                c_date = ''2024-05-01T10:05:00''\<rparr>],
           s_balance = PyFloat (dbl 125 0), s_created_date = ''2024-05-01T10:00:00'',
           s_created_by = ''alice''\<rparr>"
    by (simp add: eval_defs)
  have ex: "exact_sum [dbl 100 0, dbl 25 0]"
    by (simp add: float_defs)
  have pe: "py_eq (PyFloat (dbl 125 0)) (PyFloat (dbl 125 0))"
    by (simp add: float_defs)
  have th: "PyFloat (dbl 125 0) = running_sum [dbl 100 0, dbl 25 0]
      \<and> (\<exists>r. get_stokvel_summary (mem (run rev initial (scenario @ [give (dbl 25 0)])))
                ''SavingsCircle'' = Some r
             \<and> sm_balance r = PyFloat (dbl 125 0)
             \<and> (exact_sum [dbl 100 0, dbl 25 0] \<longrightarrow>
                   sm_total_contributions r = sm_balance r))"
    using balance_is_running_sum
      [OF sv, unfolded stokvel.select_convs contribution.select_convs list.map]
    by blast
  with ex obtain r where
    "get_stokvel_summary (mem (run rev initial (scenario @ [give (dbl 25 0)])))
        ''SavingsCircle'' = Some r"
    "sm_total_contributions r = PyFloat (dbl 125 0)"
    by auto
  with th sv ex pe show ?thesis
    by simp
qed

text \<open>
  Against C3 as stated: after contributions of \<open>0.1\<close>, \<open>0.2\<close> and \<open>0.3\<close> the balance is
  \<open>0.6000000000000001\<close> (\<open>0x1.3333333333334p-1\<close>) and \<open>total_contributions\<close> is \<open>0.6\<close>
  (\<open>0x1.3333333333333p-1\<close>), since \<open>sum\<close> compensates the rounding errors that \<open>+=\<close>
  accumulates. After one contribution of \<open>nan\<close>, which \<open>validate_amount\<close> accepts
  when \<open>float\<close> reads it from the string \<open>'nan'\<close>, both are \<open>nan\<close>, and
  \<open>total_contributions == balance\<close> is false.
\<close>

theorem balance_and_sum_differ_counterexample:
  "map_option s_balance (stokvels (mem (run rev initial scenario_tenths)) ''SavingsCircle'') =
      Some (PyFloat (Finite False 5404319552844596 (- 53)))
   \<and> map_option sm_total_contributions
        (get_stokvel_summary (mem (run rev initial scenario_tenths)) ''SavingsCircle'') =
      Some (PyFloat (Finite False 5404319552844595 (- 53)))
   \<and> \<not> py_eq (PyFloat (Finite False 5404319552844595 (- 53)))
          (PyFloat (Finite False 5404319552844596 (- 53)))
   \<and> map_option s_balance (stokvels (mem (run rev initial scenario_nan)) ''SavingsCircle'') =
      Some (PyFloat NaN)
   \<and> map_option sm_total_contributions
        (get_stokvel_summary (mem (run rev initial scenario_nan)) ''SavingsCircle'') =
      Some (PyFloat NaN)
   \<and> \<not> py_eq (PyFloat NaN) (PyFloat NaN)
   \<and> validate_amount [''nan'' \<mapsto> NaN] ''nan'' = (Some NaN, None)"
  by (simp add: eval_defs get_stokvel_summary_def validate_amount_def)

text \<open>
  C4: in every state reached from the empty state by any sequence of calls, every
  stokvel name in the stokvel list of a registered user is a key of the stokvel
  mapping, and the user is in the member list of that stokvel.
\<close>

theorem no_orphaned_references:
  "users (mem (run sha initial cs)) u = Some usr \<Longrightarrow> s \<in> set (u_stokvels usr) \<Longrightarrow>
     \<exists>sv. stokvels (mem (run sha initial cs)) s = Some sv \<and> u \<in> set (s_members sv)"
  using references_consistent_run [of sha cs]
  unfolding references_consistent_def by blast

theorem no_orphaned_references_witness:
  "users (mem (run rev initial scenario)) ''alice'' =
     Some \<lparr>u_password = ''1wp'', u_balance = 0,
           u_transactions = [''Contributed R100.00 to SavingsCircle on 2024-05-01 10:05''],
           u_stokvels = [''SavingsCircle'']\<rparr>
   \<and> ''SavingsCircle'' \<in> set [''SavingsCircle'']
   \<and> (\<exists>sv. stokvels (mem (run rev initial scenario)) ''SavingsCircle'' = Some sv
          \<and> ''alice'' \<in> set (s_members sv))"
proof -
  have h: "users (mem (run rev initial scenario)) ''alice'' =
     Some \<lparr>u_password = ''1wp'', u_balance = 0,
           u_transactions = [''Contributed R100.00 to SavingsCircle on 2024-05-01 10:05''],
           u_stokvels = [''SavingsCircle'']\<rparr>"
    by (simp add: eval_defs)
  from no_orphaned_references [OF h, of "''SavingsCircle''"] h show ?thesis
    by simp
qed

text \<open>
  C5: \<open>register_user\<close> fails with the reply \<open>DuplicateUser\<close> exactly when the name is
  already a key of the users mapping, and then changes nothing; otherwise it stores a
  user whose credential is the digest of the password, with balance 0, no
  transactions and no stokvels, writes the state to the store and reports success.
  A second registration of the same name fails with \<open>DuplicateUser\<close> whatever its
  password, and changes nothing.
\<close>

theorem register_user_spec:
  "((snd (register_user sha w u p) = Inr DuplicateUser) = (u \<in> dom (users (mem w))))
   \<and> register_user sha w u p =
       (if u \<in> dom (users (mem w)) then (w, Inr DuplicateUser)
        else
          let d' = \<lparr>users = (users (mem w))(u \<mapsto>
                      \<lparr>u_password = hash_password sha p, u_balance = 0,
                       u_transactions = [], u_stokvels = []\<rparr>),
                    stokvels = stokvels (mem w)\<rparr>
          in (\<lparr>mem = d', disk = Some d'\<rparr>,
              Inr (True, ''User '' @ u @ '' registered successfully!'')))
   \<and> register_user sha (fst (register_user sha w u p)) u p2 =
       (fst (register_user sha w u p), Inr DuplicateUser)"
proof (cases "u \<in> dom (users (mem w))")
  case True
  then have "register_user sha w u q = (w, Inr DuplicateUser)" for q
    by (simp add: register_user_def DuplicateUser_def)
  with True show ?thesis by simp
next
  case False
  define d' where "d' = \<lparr>users = (users (mem w))(u \<mapsto>
      \<lparr>u_password = hash_password sha p, u_balance = 0,
       u_transactions = [], u_stokvels = []\<rparr>), stokvels = stokvels (mem w)\<rparr>"
  from False have first: "register_user sha w u p =
      (\<lparr>mem = d', disk = Some d'\<rparr>, Inr (True, ''User '' @ u @ '' registered successfully!''))"
    by (simp add: register_user_def Let_def save_data_def d'_def)
  have "u \<in> dom (users (mem (fst (register_user sha w u p))))"
    by (simp add: first d'_def)
  then have second: "register_user sha (fst (register_user sha w u p)) u p2 =
      (fst (register_user sha w u p), Inr DuplicateUser)"
    by (simp add: register_user_def DuplicateUser_def)
  from False first second show ?thesis
    by (simp add: Let_def d'_def DuplicateUser_def)
qed

theorem register_user_spec_witness:
  "''alice'' \<notin> dom (users (mem initial))
   \<and> register_user rev initial ''alice'' ''pw1'' =
       (\<lparr>mem = \<lparr>users = [''alice'' \<mapsto> \<lparr>u_password = ''1wp'', u_balance = 0,
                       u_transactions = [], u_stokvels = []\<rparr>], stokvels = Map.empty\<rparr>,
          disk = Some \<lparr>users = [''alice'' \<mapsto> \<lparr>u_password = ''1wp'', u_balance = 0,
                       u_transactions = [], u_stokvels = []\<rparr>], stokvels = Map.empty\<rparr>\<rparr>,
        Inr (True, ''User alice registered successfully!''))
   \<and> register_user rev (fst (register_user rev initial ''alice'' ''pw1'')) ''alice'' ''pw2'' =
       (fst (register_user rev initial ''alice'' ''pw1''), Inr DuplicateUser)"
  using register_user_spec [of rev initial "''alice''" "''pw1''" "''pw2''"]
  by (auto simp: initial_defs hash_password_def Let_def)

text \<open>
  C6: \<open>login_user\<close> never changes the state or the store. It succeeds exactly when
  the name is registered and the digest of the password is the stored one; an
  unknown name and a wrong password get the same reply \<open>InvalidCredentials\<close>. In a
  state reached from the empty state, the stored digest is that of the password the
  name was registered with: login with that password succeeds, a login that succeeds
  used a password with the digest of that password, and where the digest function
  is injective, login succeeds exactly with the password of the registration.
\<close>

theorem login_user_spec:
  "login_user sha w u p =
     (w, if \<exists>usr. users (mem w) u = Some usr \<and> sha p = u_password usr
         then Inr (True, ''Welcome back, '' @ u @ ''!'') else Inr InvalidCredentials)
   \<and> (registered_with cs u = Some p \<longrightarrow>
        snd (login_user sha (run sha initial cs) u p) = Inr (True, ''Welcome back, '' @ u @ ''!''))
   \<and> (snd (login_user sha (run sha initial cs) u p) \<noteq> Inr InvalidCredentials \<longrightarrow>
        (\<exists>p0. registered_with cs u = Some p0 \<and> sha p0 = sha p))
   \<and> (inj sha \<longrightarrow>
        (snd (login_user sha (run sha initial cs) u p) = Inr (True, ''Welcome back, '' @ u @ ''!''))
          = (registered_with cs u = Some p))"
proof (intro conjI impI)
  show "login_user sha w u p =
     (w, if \<exists>usr. users (mem w) u = Some usr \<and> sha p = u_password usr
         then Inr (True, ''Welcome back, '' @ u @ ''!'') else Inr InvalidCredentials)"
    by (auto simp: login_user_reply stored_digest_def)
next
  assume "registered_with cs u = Some p"
  then show "snd (login_user sha (run sha initial cs) u p) =
      Inr (True, ''Welcome back, '' @ u @ ''!'')"
    by (simp add: login_user_reply stored_digest_reached)
next
  assume "snd (login_user sha (run sha initial cs) u p) \<noteq> Inr InvalidCredentials"
  then show "\<exists>p0. registered_with cs u = Some p0 \<and> sha p0 = sha p"
    by (auto simp: login_user_reply stored_digest_reached split: if_splits)
next
  assume "inj sha"
  then show "(snd (login_user sha (run sha initial cs) u p) =
        Inr (True, ''Welcome back, '' @ u @ ''!''))
      = (registered_with cs u = Some p)"
    by (auto simp: login_user_reply stored_digest_reached InvalidCredentials_def dest: injD)
qed

theorem login_user_spec_witness:
  "registered_with scenario ''alice'' = Some ''pw1'' \<and> inj (rev :: string \<Rightarrow> string)
   \<and> login_user rev (run rev initial scenario) ''alice'' ''pw1'' =
        (run rev initial scenario, Inr (True, ''Welcome back, alice!''))
   \<and> login_user rev (run rev initial scenario) ''alice'' ''pw2'' =
        (run rev initial scenario, Inr InvalidCredentials)
   \<and> login_user rev (run rev initial scenario) ''bob'' ''pw1'' =
        (run rev initial scenario, Inr InvalidCredentials)"
proof -
  have r: "registered_with scenario ''alice'' = Some ''pw1''"
    and b: "registered_with scenario ''bob'' = None"
    by (simp_all add: scenario_def)
  have i: "inj (rev :: string \<Rightarrow> string)"
    by simp
  have ok: "snd (login_user rev (run rev initial scenario) ''alice'' ''pw1'') =
      Inr (True, ''Welcome back, alice!'')"
    using login_user_spec [of rev initial "''alice''" "''pw1''" scenario] r by simp
  have wrong: "snd (login_user rev (run rev initial scenario) ''alice'' ''pw2'') =
      Inr InvalidCredentials"
    using login_user_spec [of rev initial "''alice''" "''pw2''" scenario] r by auto
  have unknown: "snd (login_user rev (run rev initial scenario) ''bob'' ''pw1'') =
      Inr InvalidCredentials"
    using login_user_spec [of rev initial "''bob''" "''pw1''" scenario] b by auto
  have same: "fst (login_user rev (run rev initial scenario) u p) = run rev initial scenario"
    for u p
    using login_user_spec [of rev "run rev initial scenario" u p scenario] by simp
  from r i ok wrong unknown same show ?thesis
    by (simp add: prod_eq_iff)
qed

text \<open>
  C7: for a registered creator, \<open>create_stokvel\<close> fails with the reply
  \<open>DuplicateStokvel\<close> exactly when the name is already a key of the stokvel mapping,
  and then changes nothing; otherwise it stores a stokvel with the member list
  \<open>[creator]\<close>, balance 0, no contributions, the creation time and the creator,
  appends the name to the creator's stokvel list, writes the state to the store and
  reports success. Right after a successful creation \<open>get_stokvel_summary\<close> reports
  one member, the creator.
\<close>

theorem create_stokvel_spec:
  assumes "users (mem w) c = Some usr"
  shows "((snd (create_stokvel w s c t) = Inr DuplicateStokvel) = (s \<in> dom (stokvels (mem w))))
   \<and> create_stokvel w s c t =
       (if s \<in> dom (stokvels (mem w)) then (w, Inr DuplicateStokvel)
        else
          let d' = \<lparr>users = (users (mem w))(c \<mapsto> usr\<lparr>u_stokvels := u_stokvels usr @ [s]\<rparr>),
                    stokvels = (stokvels (mem w))(s \<mapsto>
                      \<lparr>s_members = [c], s_contributions = [], s_balance = 0,
                       s_created_date = t, s_created_by = c\<rparr>)\<rparr>
          in (\<lparr>mem = d', disk = Some d'\<rparr>,
              Inr (True, ''Stokvel '' @ [CHR 0x27] @ s @ [CHR 0x27]
                           @ '' created and you have joined it!'')))
   \<and> (s \<notin> dom (stokvels (mem w)) \<longrightarrow>
        get_stokvel_summary (mem (fst (create_stokvel w s c t))) s =
          Some \<lparr>sm_name = s, sm_balance = 0, sm_total_contributions = 0, sm_member_count = 1,
                sm_members = [c], sm_created_date = t, sm_created_by = c\<rparr>)"
proof (cases "s \<in> dom (stokvels (mem w))")
  case True
  then show ?thesis
    by (simp add: create_stokvel_def DuplicateStokvel_def)
next
  case False
  with assms have run: "create_stokvel w s c t =
      (let d' = \<lparr>users = (users (mem w))(c \<mapsto> usr\<lparr>u_stokvels := u_stokvels usr @ [s]\<rparr>),
                 stokvels = (stokvels (mem w))(s \<mapsto>
                   \<lparr>s_members = [c], s_contributions = [], s_balance = 0,
                    s_created_date = t, s_created_by = c\<rparr>)\<rparr>
       in (\<lparr>mem = d', disk = Some d'\<rparr>,
           Inr (True, ''Stokvel '' @ [CHR 0x27] @ s @ [CHR 0x27]
                        @ '' created and you have joined it!'')))"
    by (simp add: create_stokvel_def Let_def save_data_def)
  then have "get_stokvel_summary (mem (fst (create_stokvel w s c t))) s =
      Some \<lparr>sm_name = s, sm_balance = 0, sm_total_contributions = 0, sm_member_count = 1,
            sm_members = [c], sm_created_date = t, sm_created_by = c\<rparr>"
    by (simp add: Let_def get_stokvel_summary_def)
  with False run show ?thesis
    by (simp add: DuplicateStokvel_def Let_def)
qed

theorem create_stokvel_spec_witness:
  "users (mem (fst (register_user rev initial ''alice'' ''pw1''))) ''alice'' =
      Some \<lparr>u_password = ''1wp'', u_balance = 0, u_transactions = [], u_stokvels = []\<rparr>
   \<and> ''SavingsCircle'' \<notin> dom (stokvels (mem (fst (register_user rev initial ''alice'' ''pw1''))))
   \<and> snd (create_stokvel (fst (register_user rev initial ''alice'' ''pw1''))
        ''SavingsCircle'' ''alice'' ''2024-05-01T10:00:00'') \<noteq> Inr DuplicateStokvel
   \<and> get_stokvel_summary (mem (fst (create_stokvel (fst (register_user rev initial ''alice'' ''pw1''))
        ''SavingsCircle'' ''alice'' ''2024-05-01T10:00:00''))) ''SavingsCircle'' =
      Some \<lparr>sm_name = ''SavingsCircle'', sm_balance = 0, sm_total_contributions = 0,
            sm_member_count = 1, sm_members = [''alice''],
            sm_created_date = ''2024-05-01T10:00:00'', sm_created_by = ''alice''\<rparr>"
proof -
  have h: "users (mem (fst (register_user rev initial ''alice'' ''pw1''))) ''alice'' =
      Some \<lparr>u_password = ''1wp'', u_balance = 0, u_transactions = [], u_stokvels = []\<rparr>"
    by (simp add: eval_defs)
  have f: "''SavingsCircle'' \<notin> dom (stokvels (mem (fst (register_user rev initial ''alice'' ''pw1''))))"
    by (simp add: eval_defs)
  note spec = create_stokvel_spec [OF h, of "''SavingsCircle''" "''2024-05-01T10:00:00''"]
  from spec f h show ?thesis by blast
qed

text \<open>
  C8, as amended: for a stokvel that exists, a member of it who is a registered
  user, and a float amount \<open>a > 0\<close>, \<open>contribute\<close> sets the balance of the stokvel to
  \<open>balance + a\<close> as Python adds floats (the double nearest to the exact sum), appends
  exactly one contribution record with the user, the amount and the time to its
  contributions, appends exactly one formatted transaction string to the user's
  transactions, writes the state to the store and returns success with a message;
  the earlier contributions and transactions, and every other field, stay as they
  were.
\<close>

theorem contribute_spec:
  assumes "stokvels (mem w) s = Some sv" and "u \<in> set (s_members sv)"
    and "users (mem w) u = Some usr" and "flt (Finite False 0 0) a"
  shows "\<exists>w' sv' usr'.
      contribute w s a u t t' =
        (w', Inr (True, ''You contributed R'' @ format_2f a @ '' to '' @ s @ ''.''))
      \<and> disk w' = Some (mem w')
      \<and> stokvels (mem w') = (stokvels (mem w))(s \<mapsto> sv')
      \<and> s_balance sv' = py_add (s_balance sv) a
      \<and> s_contributions sv' = s_contributions sv @ [\<lparr>c_user = u, c_amount = a, c_date = t\<rparr>]
      \<and> s_members sv' = s_members sv
      \<and> s_created_date sv' = s_created_date sv \<and> s_created_by sv' = s_created_by sv
      \<and> users (mem w') = (users (mem w))(u \<mapsto> usr')
      \<and> u_transactions usr' = u_transactions usr @
            [''Contributed R'' @ format_2f a @ '' to '' @ s @ '' on '' @ t']
      \<and> u_balance usr' = u_balance usr \<and> u_password usr' = u_password usr
      \<and> u_stokvels usr' = u_stokvels usr"
  using contribute_effect [OF assms(1-3), of a t t'] .

theorem contribute_spec_witness:
  "stokvels (mem (run rev initial scenario)) ''SavingsCircle'' =
     Some \<lparr>s_members = [''alice''],
           s_contributions = [\<lparr>c_user = ''alice'', c_amount = dbl 100 0,
                                c_date = ''2024-05-01T10:05:00''\<rparr>],
           s_balance = PyFloat (dbl 100 0), s_created_date = ''2024-05-01T10:00:00'',
           s_created_by = ''alice''\<rparr>
   \<and> ''alice'' \<in> set [''alice'']
   \<and> users (mem (run rev initial scenario)) ''alice'' =
     Some \<lparr>u_password = ''1wp'', u_balance = 0,
           u_transactions = [''Contributed R100.00 to SavingsCircle on 2024-05-01 10:05''],
           u_stokvels = [''SavingsCircle'']\<rparr>
   \<and> flt (Finite False 0 0) (dbl 201 (- 1))
   \<and> snd (contribute (run rev initial scenario) ''SavingsCircle'' (dbl 201 (- 1)) ''alice''
        ''2024-05-02T09:00:00'' ''2024-05-02 09:00'') =
      Inr (True, ''You contributed R100.50 to SavingsCircle.'')
   \<and> stokvels (mem (fst (contribute (run rev initial scenario) ''SavingsCircle''
        (dbl 201 (- 1)) ''alice'' ''2024-05-02T09:00:00'' ''2024-05-02 09:00''))) ''SavingsCircle'' =
     Some \<lparr>s_members = [''alice''],
           s_contributions = [\<lparr>c_user = ''alice'', c_amount = dbl 100 0,
                                c_date = ''2024-05-01T10:05:00''\<rparr>,
                              \<lparr>c_user = ''alice'', c_amount = dbl 201 (- 1),
                                c_date = ''2024-05-02T09:00:00''\<rparr>],
           s_balance = PyFloat (dbl 401 (- 1)), s_created_date = ''2024-05-01T10:00:00'',
           s_created_by = ''alice''\<rparr>
   \<and> users (mem (fst (contribute (run rev initial scenario) ''SavingsCircle''
        (dbl 201 (- 1)) ''alice'' ''2024-05-02T09:00:00'' ''2024-05-02 09:00''))) ''alice'' =
     Some \<lparr>u_password = ''1wp'', u_balance = 0,
           u_transactions = [''Contributed R100.00 to SavingsCircle on 2024-05-01 10:05'',
                             ''Contributed R100.50 to SavingsCircle on 2024-05-02 09:00''],
           u_stokvels = [''SavingsCircle'']\<rparr>"
proof -
  have sv: "stokvels (mem (run rev initial scenario)) ''SavingsCircle'' =
     Some \<lparr>s_members = [''alice''],
           s_contributions = [\<lparr>c_user = ''alice'', c_amount = dbl 100 0,
                                c_date = ''2024-05-01T10:05:00''\<rparr>],
           s_balance = PyFloat (dbl 100 0), s_created_date = ''2024-05-01T10:00:00'',
           s_created_by = ''alice''\<rparr>"
    by (simp add: eval_defs)
  have usr: "users (mem (run rev initial scenario)) ''alice'' =
     Some \<lparr>u_password = ''1wp'', u_balance = 0,
           u_transactions = [''Contributed R100.00 to SavingsCircle on 2024-05-01 10:05''],
           u_stokvels = [''SavingsCircle'']\<rparr>"
    by (simp add: eval_defs)
  have pos: "flt (Finite False 0 0) (dbl 201 (- 1))"
    by (simp add: flt_def float_defs)
  from contribute_spec [OF sv _ usr pos, of "''2024-05-02T09:00:00''" "''2024-05-02 09:00''"]
  obtain w' where
    "contribute (run rev initial scenario) ''SavingsCircle'' (dbl 201 (- 1)) ''alice''
        ''2024-05-02T09:00:00'' ''2024-05-02 09:00'' =
      (w', Inr (True, ''You contributed R'' @ format_2f (dbl 201 (- 1)) @ '' to ''
         @ ''SavingsCircle'' @ ''.''))"
    by auto
  then have "snd (contribute (run rev initial scenario) ''SavingsCircle'' (dbl 201 (- 1)) ''alice''
        ''2024-05-02T09:00:00'' ''2024-05-02 09:00'') =
      Inr (True, ''You contributed R100.50 to SavingsCircle.'')"
    by (simp add: float_defs)
  with sv usr pos show ?thesis
    by (simp add: contribute_def Let_def save_data_def float_defs)
qed

text \<open>
  C8 as stated fails in two ways. For a member that is not a registered user: after
  the scenario and the call of \<open>join_stokvel\<close> for \<open>bob\<close>, the name \<open>bob\<close> is in the
  member list and not a key of the users mapping, and a contribution of \<open>5.0\<close> by
  \<open>bob\<close> raises \<open>KeyError\<close> after the balance went to \<open>105.0\<close>, and nothing is saved.
  And the balance does not always grow by the amount: on a balance of \<open>1e16\<close> a
  contribution of \<open>1.0\<close> by \<open>alice\<close> succeeds and leaves the balance at \<open>1e16\<close>.
\<close>

theorem contribute_unregistered_member_counterexample:
  "users (mem (run rev initial scenario_bob_joins)) ''bob'' = None
   \<and> map_option s_members (stokvels (mem (run rev initial scenario_bob_joins)) ''SavingsCircle'') =
        Some [''alice'', ''bob'']
   \<and> snd (contribute (run rev initial scenario_bob_joins) ''SavingsCircle'' (dbl 5 0) ''bob''
        ''2024-05-02T09:00:00'' ''2024-05-02 09:00'') = Inl (KeyError ''bob'')
   \<and> map_option s_balance (stokvels (mem (fst (contribute (run rev initial scenario_bob_joins)
        ''SavingsCircle'' (dbl 5 0) ''bob'' ''2024-05-02T09:00:00'' ''2024-05-02 09:00'')))
        ''SavingsCircle'') = Some (PyFloat (dbl 105 0))
   \<and> disk (fst (contribute (run rev initial scenario_bob_joins)
        ''SavingsCircle'' (dbl 5 0) ''bob'' ''2024-05-02T09:00:00'' ''2024-05-02 09:00'')) =
      disk (run rev initial scenario_bob_joins)
   \<and> map_option s_balance (stokvels (mem (run rev initial scenario_large)) ''SavingsCircle'') =
        Some (PyFloat (dbl (10 ^ 16) 0))
   \<and> flt (Finite False 0 0) (dbl 1 0)
   \<and> snd (contribute (run rev initial scenario_large) ''SavingsCircle'' (dbl 1 0) ''alice''
        ''2024-05-02T09:00:00'' ''2024-05-02 09:00'') =
      Inr (True, ''You contributed R1.00 to SavingsCircle.'')
   \<and> map_option s_balance (stokvels (mem (fst (contribute (run rev initial scenario_large)
        ''SavingsCircle'' (dbl 1 0) ''alice'' ''2024-05-02T09:00:00'' ''2024-05-02 09:00'')))
        ''SavingsCircle'') = Some (PyFloat (dbl (10 ^ 16) 0))"
  by (simp add: eval_defs flt_def)


text \<open>
  C9, as amended: \<open>join_stokvel\<close> fails with the reply \<open>StokvelNotFound\<close> when the
  stokvel is absent and with \<open>AlreadyMember\<close> when the name is in its member list; for
  a registered user who is not a member it appends the name to the member list and
  the stokvel to the user's stokvel list, writes the state to the store and reports
  success. For a registered user the outcome is always a returned reply.
\<close>

theorem join_stokvel_amended:
  "(stokvels (mem w) s = None \<longrightarrow> join_stokvel w s u = (w, Inr StokvelNotFound))
   \<and> (stokvels (mem w) s = Some sv \<and> u \<in> set (s_members sv) \<longrightarrow>
        join_stokvel w s u = (w, Inr AlreadyMember))
   \<and> (stokvels (mem w) s = Some sv \<and> u \<notin> set (s_members sv) \<and> users (mem w) u = Some usr \<longrightarrow>
        join_stokvel w s u =
          (let d' = \<lparr>users = (users (mem w))(u \<mapsto> usr\<lparr>u_stokvels := u_stokvels usr @ [s]\<rparr>),
                     stokvels = (stokvels (mem w))(s \<mapsto> sv\<lparr>s_members := s_members sv @ [u]\<rparr>)\<rparr>
           in (\<lparr>mem = d', disk = Some d'\<rparr>, Inr (True, ''You have joined '' @ s @ ''!''))))
   \<and> (u \<in> dom (users (mem w)) \<longrightarrow> (\<exists>r. snd (join_stokvel w s u) = Inr r))"
  by (auto simp: join_stokvel_def Let_def save_data_def StokvelNotFound_def AlreadyMember_def
        split: option.splits)

theorem join_stokvel_amended_witness:
  "stokvels (mem (run rev initial scenario)) ''Nowhere'' = None
   \<and> join_stokvel (run rev initial scenario) ''Nowhere'' ''alice'' =
        (run rev initial scenario, Inr StokvelNotFound)
   \<and> stokvels (mem (run rev initial scenario)) ''SavingsCircle'' =
     Some \<lparr>s_members = [''alice''],
           s_contributions = [\<lparr>c_user = ''alice'', c_amount = dbl 100 0,
                                c_date = ''2024-05-01T10:05:00''\<rparr>],
           s_balance = PyFloat (dbl 100 0), s_created_date = ''2024-05-01T10:00:00'',
           s_created_by = ''alice''\<rparr>
   \<and> ''alice'' \<in> set [''alice'']
   \<and> join_stokvel (run rev initial scenario) ''SavingsCircle'' ''alice'' =
        (run rev initial scenario, Inr AlreadyMember)
   \<and> ''bob'' \<notin> set [''alice'']
   \<and> users (mem (fst (register_user rev (run rev initial scenario) ''bob'' ''pw2''))) ''bob'' =
     Some \<lparr>u_password = ''2wp'', u_balance = 0, u_transactions = [], u_stokvels = []\<rparr>
   \<and> ''bob'' \<in> dom (users (mem (fst (register_user rev (run rev initial scenario) ''bob'' ''pw2''))))
   \<and> snd (join_stokvel (fst (register_user rev (run rev initial scenario) ''bob'' ''pw2''))
        ''SavingsCircle'' ''bob'') = Inr (True, ''You have joined SavingsCircle!'')
   \<and> map_option s_members (stokvels (mem (fst (join_stokvel
        (fst (register_user rev (run rev initial scenario) ''bob'' ''pw2''))
        ''SavingsCircle'' ''bob''))) ''SavingsCircle'') = Some [''alice'', ''bob'']
   \<and> map_option u_stokvels (users (mem (fst (join_stokvel
        (fst (register_user rev (run rev initial scenario) ''bob'' ''pw2''))
        ''SavingsCircle'' ''bob''))) ''bob'') = Some [''SavingsCircle'']"
proof -
  let ?w = "run rev initial scenario"
  let ?w2 = "fst (register_user rev ?w ''bob'' ''pw2'')"
  let ?sv = "\<lparr>s_members = [''alice''],
           s_contributions = [\<lparr>c_user = ''alice'', c_amount = dbl 100 0,
                                c_date = ''2024-05-01T10:05:00''\<rparr>],
           s_balance = PyFloat (dbl 100 0), s_created_date = ''2024-05-01T10:00:00'',
           s_created_by = ''alice''\<rparr>"
  let ?bob = "\<lparr>u_password = ''2wp'', u_balance = 0, u_transactions = [], u_stokvels = []\<rparr>"
  have none: "stokvels (mem ?w) ''Nowhere'' = None"
    and sv: "stokvels (mem ?w) ''SavingsCircle'' = Some ?sv"
    and sv2: "stokvels (mem ?w2) ''SavingsCircle'' = Some ?sv"
    and bob: "users (mem ?w2) ''bob'' = Some ?bob"
    by (simp_all add: eval_defs)
  from join_stokvel_amended [of ?w "''Nowhere''" "''alice''"] none
  have 1: "join_stokvel ?w ''Nowhere'' ''alice'' = (?w, Inr StokvelNotFound)"
    by blast
  from join_stokvel_amended [of ?w "''SavingsCircle''" "''alice''" ?sv] sv
  have 2: "join_stokvel ?w ''SavingsCircle'' ''alice'' = (?w, Inr AlreadyMember)"
    by simp
  from join_stokvel_amended [of ?w2 "''SavingsCircle''" "''bob''" ?sv ?bob] sv2 bob
  have 3: "join_stokvel ?w2 ''SavingsCircle'' ''bob'' =
      (let d' = \<lparr>users = (users (mem ?w2))(''bob'' \<mapsto> ?bob\<lparr>u_stokvels := u_stokvels ?bob @ [''SavingsCircle'']\<rparr>),
                 stokvels = (stokvels (mem ?w2))(''SavingsCircle'' \<mapsto> ?sv\<lparr>s_members := s_members ?sv @ [''bob'']\<rparr>)\<rparr>
       in (\<lparr>mem = d', disk = Some d'\<rparr>, Inr (True, ''You have joined '' @ ''SavingsCircle'' @ ''!'')))"
    by simp
  from bob have reg: "''bob'' \<in> dom (users (mem ?w2))"
    by (simp add: domIff)
  from none sv bob reg 1 2 show ?thesis
    by (simp add: 3 Let_def)
qed

text \<open>
  C9 as stated fails: after the scenario \<open>bob\<close> is not registered, and
  \<open>join_stokvel\<close> for \<open>bob\<close> raises \<open>KeyError\<close> after it appended \<open>bob\<close> to the member
  list; nothing is saved.
\<close>

theorem join_stokvel_unregistered_counterexample:
  "users (mem (run rev initial scenario)) ''bob'' = None
   \<and> map_option s_members (stokvels (mem (run rev initial scenario)) ''SavingsCircle'') =
        Some [''alice'']
   \<and> snd (join_stokvel (run rev initial scenario) ''SavingsCircle'' ''bob'') =
        Inl (KeyError ''bob'')
   \<and> map_option s_members
        (stokvels (mem (fst (join_stokvel (run rev initial scenario) ''SavingsCircle'' ''bob'')))
           ''SavingsCircle'') = Some [''alice'', ''bob'']
   \<and> disk (fst (join_stokvel (run rev initial scenario) ''SavingsCircle'' ''bob'')) =
        disk (run rev initial scenario)"
  by (simp add: eval_defs)

text \<open>
  C10: no call of the registry changes the balance of a user. After any call, the
  balance of a user is what it was before the call, and 0 if the call created the
  user; so in every state reached from the empty state every registered user has
  balance 0. In particular a contribution changes the balance of the stokvel only.
  \<open>update_user_balance\<close> is the one function that writes the field, and none of the
  calls uses it.
\<close>

theorem user_balance_never_modified:
  "(users (mem (fst (exec sha w c))) u = Some usr' \<longrightarrow>
      u_balance usr' = (case users (mem w) u of None \<Rightarrow> 0 | Some usr \<Rightarrow> u_balance usr))
   \<and> (users (mem (run sha initial cs)) u = Some reached \<longrightarrow> u_balance reached = 0)"
proof (intro conjI impI)
  assume after: "users (mem (fst (exec sha w c))) u = Some usr'"
  show "u_balance usr' = (case users (mem w) u of None \<Rightarrow> 0 | Some usr \<Rightarrow> u_balance usr)"
  proof (cases "users (mem w) u")
    case None
    from exec_new_user [OF None after] obtain p where
      "usr' = \<lparr>u_password = sha p, u_balance = 0, u_transactions = [], u_stokvels = []\<rparr>"
      by blast
    with None show ?thesis by simp
  next
    case (Some usr)
    from exec_keeps_user [OF Some, of sha c] after Some show ?thesis by auto
  qed
next
  assume "users (mem (run sha initial cs)) u = Some reached"
  then show "u_balance reached = 0"
    using balances_zero_run [of sha cs] by (simp add: balances_zero_def)
qed

theorem user_balance_never_modified_witness:
  "users (mem (run rev initial scenario)) ''alice'' =
     Some \<lparr>u_password = ''1wp'', u_balance = 0,
           u_transactions = [''Contributed R100.00 to SavingsCircle on 2024-05-01 10:05''],
           u_stokvels = [''SavingsCircle'']\<rparr>
   \<and> users (mem (fst (exec rev (run rev initial scenario)
         (Contribute ''SavingsCircle'' (dbl 25 0) ''alice'' ''2024-05-02T09:00:00'' ''2024-05-02 09:00''))))
       ''alice'' =
     Some \<lparr>u_password = ''1wp'', u_balance = 0,
           u_transactions = [''Contributed R100.00 to SavingsCircle on 2024-05-01 10:05'',
                             ''Contributed R25.00 to SavingsCircle on 2024-05-02 09:00''],
           u_stokvels = [''SavingsCircle'']\<rparr>"
proof -
  have h: "users (mem (run rev initial scenario)) ''alice'' =
     Some \<lparr>u_password = ''1wp'', u_balance = 0,
           u_transactions = [''Contributed R100.00 to SavingsCircle on 2024-05-01 10:05''],
           u_stokvels = [''SavingsCircle'']\<rparr>"
    by (simp add: eval_defs)
  have k: "users (mem (fst (exec rev (run rev initial scenario)
         (Contribute ''SavingsCircle'' (dbl 25 0) ''alice'' ''2024-05-02T09:00:00'' ''2024-05-02 09:00''))))
       ''alice'' =
     Some \<lparr>u_password = ''1wp'', u_balance = 0,
           u_transactions = [''Contributed R100.00 to SavingsCircle on 2024-05-01 10:05'',
                             ''Contributed R25.00 to SavingsCircle on 2024-05-02 09:00''],
           u_stokvels = [''SavingsCircle'']\<rparr>"
    by (simp add: eval_defs)
  from user_balance_never_modified [of rev "run rev initial scenario"
      "Contribute ''SavingsCircle'' (dbl 25 0) ''alice'' ''2024-05-02T09:00:00'' ''2024-05-02 09:00''"
      "''alice''" _ scenario] h k
  show ?thesis by simp
qed

end
